theory Spec2Isabelle
  imports Complex_Main
begin

section \<open>Quantitative pricing engine: positions, portfolios and accounts\<close>

text \<open>
  A shallow embedding of \<^verbatim>\<open>quantitative-pricing-engine.py\<close>. A Python \<^verbatim>\<open>float\<close> is
  modelled by the real number it stands for, and the value of an arithmetic operation by
  the exact result: rounding in the last bits, infinities and NaN are outside the model.
  Inside the model are the branches of the code, the order of its operations, and every
  exception that its arithmetic raises on doubles: division by a zero divisor, logarithm
  of a non-positive number, square root of a negative number, overflow of \<^verbatim>\<open>**\<close> and of
  \<^verbatim>\<open>math.exp\<close>, and a computed double that has underflowed to zero where the code divides
  by it or takes its logarithm.
\<close>

subsection \<open>The asset hierarchy\<close>

text \<open>
  The class hierarchy \<^verbatim>\<open>Position > Stock\<close>, \<^verbatim>\<open>Position > Derivative > Option\<close> is a
  chain of record extensions, so a function on derivatives applies to options as the
  inherited method does. The constructors only store their arguments.
\<close>

record Position =
  ticker :: string
  quantity :: real
  market_price :: real

record Stock = Position +
  pays_dividends :: bool

record Derivative = Position +
  expiration_date :: string
  multiplier :: real

record Option = Derivative +
  strike_price :: real
  option_type :: string

text \<open>
  An element of \<^verbatim>\<open>Portfolio.positions\<close> is an object of one of the three concrete
  classes (\<^verbatim>\<open>Position\<close> is abstract); the tag is what \<^verbatim>\<open>isinstance\<close> and method
  dispatch look at.
\<close>

datatype instrument =
  StockPos Stock
| DerivativePos Derivative
| OptionPos Option

definition Stock_calculate_current_value :: "Stock \<Rightarrow> real" where
  "Stock_calculate_current_value s = quantity s * market_price s"

definition Derivative_calculate_current_value :: "'a Derivative_scheme \<Rightarrow> real" where
  "Derivative_calculate_current_value d = quantity d * market_price d * multiplier d"

text \<open>Dynamic dispatch of \<^verbatim>\<open>p.calculate_current_value()\<close>; \<^verbatim>\<open>Option\<close> inherits the method
  of \<^verbatim>\<open>Derivative\<close>.\<close>

fun calculate_current_value :: "instrument \<Rightarrow> real" where
  "calculate_current_value (StockPos s) = Stock_calculate_current_value s"
| "calculate_current_value (DerivativePos d) = Derivative_calculate_current_value d"
| "calculate_current_value (OptionPos opt) = Derivative_calculate_current_value opt"

text \<open>The attribute read \<^verbatim>\<open>p.market_price\<close> on an element of the list.\<close>

fun market_price_of :: "instrument \<Rightarrow> real" where
  "market_price_of (StockPos s) = market_price s"
| "market_price_of (DerivativePos d) = market_price d"
| "market_price_of (OptionPos opt) = market_price opt"

subsection \<open>Portfolio\<close>

record Portfolio =
  positions :: "instrument list"

definition Portfolio_init :: "Portfolio" where
  "Portfolio_init = \<lparr>positions = []\<rparr>"

definition add_position :: "Portfolio \<Rightarrow> instrument \<Rightarrow> Portfolio" where
  "add_position pf p = pf\<lparr>positions := positions pf @ [p]\<rparr>"

text \<open>The builtin \<^verbatim>\<open>sum\<close>: it starts from \<open>0\<close> and adds the elements from left to right.\<close>

definition py_sum :: "real list \<Rightarrow> real" where
  "py_sum xs = foldl (\<lambda>acc x. acc + x) 0 xs"

definition total_valuation :: "Portfolio \<Rightarrow> real" where
  "total_valuation pf = py_sum (map calculate_current_value (positions pf))"

definition average_market_price :: "Portfolio \<Rightarrow> real" where
  "average_market_price pf =
     (if positions pf = [] then 0
      else let total_price = py_sum (map market_price_of (positions pf))
           in total_price / real (length (positions pf)))"

text \<open>
  The loop of \<^verbatim>\<open>has_straddle_strategy\<close>, with its two flags as arguments. Each iteration
  updates the flags when the element is an \<^verbatim>\<open>Option\<close>, then returns \<open>True\<close> early when both
  are set; running off the end of the list returns \<open>False\<close>.
\<close>

fun straddle_loop :: "bool \<Rightarrow> bool \<Rightarrow> instrument list \<Rightarrow> bool" where
  "straddle_loop has_call has_put [] = False"
| "straddle_loop has_call has_put (p # ps) =
     (let has_call' = (case p of
                         OptionPos opt \<Rightarrow> (if option_type opt = ''Call'' then True else has_call)
                       | _ \<Rightarrow> has_call);
          has_put' = (case p of
                        OptionPos opt \<Rightarrow> (if option_type opt = ''Put'' then True else has_put)
                      | _ \<Rightarrow> has_put)
      in if has_call' \<and> has_put' then True else straddle_loop has_call' has_put' ps)"

definition has_straddle_strategy :: "Portfolio \<Rightarrow> bool" where
  "has_straddle_strategy pf = straddle_loop False False (positions pf)"

subsection \<open>Client accounts\<close>

record ClientAccount =
  iban :: string
  cash_balance :: real
  portfolio :: "Portfolio option"

definition ClientAccount_init :: "string \<Rightarrow> real \<Rightarrow> ClientAccount" where
  "ClientAccount_init i c = \<lparr>iban = i, cash_balance = c, portfolio = None\<rparr>"

definition assign_portfolio :: "ClientAccount \<Rightarrow> Portfolio \<Rightarrow> ClientAccount" where
  "assign_portfolio acct pf = acct\<lparr>portfolio := Some pf\<rparr>"

text \<open>
  \<^verbatim>\<open>if self.portfolio:\<close> tests the truth value of the attribute. \<^verbatim>\<open>Portfolio\<close> defines
  neither \<^verbatim>\<open>__bool__\<close> nor \<^verbatim>\<open>__len__\<close>, so every portfolio object is true, also an empty
  one, and only \<^verbatim>\<open>None\<close> is false.
\<close>

definition calculate_net_worth :: "ClientAccount \<Rightarrow> real" where
  "calculate_net_worth acct =
     (let total = cash_balance acct
      in case portfolio acct of
           Some pf \<Rightarrow> total + total_valuation pf
         | None \<Rightarrow> total)"

subsection \<open>Black-Scholes pricing of an option\<close>

text \<open>
  The exceptions that the arithmetic of \<^verbatim>\<open>theoretical_value_bs\<close> can raise.
\<close>

datatype error = ZeroDivisionError | ValueError | OverflowError

definition bind :: "error + 'a \<Rightarrow> ('a \<Rightarrow> error + 'b) \<Rightarrow> error + 'b" where
  "bind m f = (case m of Inl e \<Rightarrow> Inl e | Inr v \<Rightarrow> f v)"

text \<open>
  The range of a double. A result of magnitude \<open>2^1024 - 2^970\<close> or more is rounded to an
  infinity: the bound is half a unit in the last place above the largest double. A result
  of magnitude \<open>2^-1075\<close> or less is rounded to zero: the bound is half the least positive
  double \<open>2^-1074\<close>. Both tests are applied to the exact value of a result; where an operand
  is itself a rounded result, a value within rounding of a bound may fall on the other side
  of it in the code.
\<close>

definition overflows :: "real \<Rightarrow> bool" where
  "overflows x \<longleftrightarrow> 2 ^ 1024 - 2 ^ 970 \<le> \<bar>x\<bar>"

definition underflows :: "real \<Rightarrow> bool" where
  "underflows x \<longleftrightarrow> \<bar>x\<bar> \<le> 1 / 2 ^ 1075"

text \<open>
  The double that a product or a quotient is rounded to, as far as the code can tell it
  from zero. It is applied where the code tests a computed double against zero: the
  argument of \<^verbatim>\<open>math.log\<close> and the divisor of \<open>d1\<close>.
\<close>

definition flush :: "real \<Rightarrow> real" where
  "flush x = (if underflows x then 0 else x)"

text \<open>
  \<^verbatim>\<open>/\<close> raises \<^verbatim>\<open>ZeroDivisionError\<close> on a zero divisor; a quotient out of range is an
  infinity or zero, not an exception. \<^verbatim>\<open>math.log\<close> and \<^verbatim>\<open>math.sqrt\<close> raise \<^verbatim>\<open>ValueError\<close>
  outside their domains.
\<close>

definition truediv :: "real \<Rightarrow> real \<Rightarrow> error + real" where
  "truediv a b = (if b = 0 then Inl ZeroDivisionError else Inr (a / b))"

definition math_log :: "real \<Rightarrow> error + real" where
  "math_log x = (if x \<le> 0 then Inl ValueError else Inr (ln x))"

definition math_sqrt :: "real \<Rightarrow> error + real" where
  "math_sqrt x = (if x < 0 then Inl ValueError else Inr (sqrt x))"

text \<open>
  \<^verbatim>\<open>x ** n\<close> on a float raises \<^verbatim>\<open>OverflowError\<close> when the power overflows; a power that
  underflows is zero, without an exception.
\<close>

definition float_pow :: "real \<Rightarrow> nat \<Rightarrow> error + real" where
  "float_pow x n = (if overflows (x ^ n) then Inl OverflowError else Inr (x ^ n))"

text \<open>
  \<^verbatim>\<open>math.exp\<close> raises \<^verbatim>\<open>OverflowError\<close> when its result overflows at a finite argument.
  An argument that is an infinity already (a product that has overflowed) gives an
  infinity or zero, without an exception, and so does a result that underflows.
\<close>

definition math_exp :: "real \<Rightarrow> error + real" where
  "math_exp x = (if overflows (exp x) \<and> \<not> overflows x then Inl OverflowError else Inr (exp x))"

text \<open>
  \<^verbatim>\<open>math.erf\<close> is the error function of the C library. On the reals it is the function
  with the Maclaurin series \<open>2/\<surd>\<pi> * (\<Sum>n. (-1)^n * x^(2n+1) / (n! * (2n+1)))\<close>. It raises
  nothing.
\<close>

definition erf_term :: "real \<Rightarrow> nat \<Rightarrow> real" where
  "erf_term x n = (- 1) ^ n * x ^ (2 * n + 1) / (fact n * real (2 * n + 1))"

definition erf :: "real \<Rightarrow> real" where
  "erf x = 2 / sqrt pi * (\<Sum>n. erf_term x n)"

text \<open>
  The local function \<^verbatim>\<open>N\<close>. Its square root is of the constant \<open>2.0\<close> and its divisors are
  non-zero constants, so it raises nothing.
\<close>

definition N :: "real \<Rightarrow> real" where
  "N x = (1 + erf (x / sqrt 2)) / 2"

text \<open>
  Lines 103 and 104, the computation of \<open>d1\<close> and \<open>d2\<close>. The operands of \<open>d1\<close> are
  evaluated in Python's order: the quotient \<^verbatim>\<open>S / K\<close>, its logarithm, the square of
  \<open>sigma\<close> and the rest of the numerator, the denominator with its square root, then the
  division.
\<close>

definition bs_d1_d2 :: "real \<Rightarrow> real \<Rightarrow> real \<Rightarrow> real \<Rightarrow> real \<Rightarrow> error + real \<times> real" where
  "bs_d1_d2 S K r sigma T =
     bind (truediv S K) (\<lambda>quot.
     bind (math_log (flush quot)) (\<lambda>lg.
     bind (float_pow sigma 2) (\<lambda>sq.
     bind (math_sqrt T) (\<lambda>root.
     bind (truediv (lg + (r + 0.5 * sq) * T) (flush (sigma * root))) (\<lambda>d1.
     bind (math_sqrt T) (\<lambda>root'.
     Inr (d1, d1 - sigma * root')))))))"

text \<open>
  Lines 110 to 115, the choice of the price by the option type. The price starts at \<open>0\<close>
  and stays there when the type is neither \<open>Call\<close> nor \<open>Put\<close>; \<^verbatim>\<open>math.exp\<close> is called in
  the two branches only.
\<close>

definition bs_step4 :: "Option \<Rightarrow> real \<Rightarrow> real \<Rightarrow> real \<Rightarrow> real \<Rightarrow> error + real" where
  "bs_step4 self r T d1 d2 =
     (let S = market_price self;
          K = strike_price self
      in if option_type self = ''Call'' then
           bind (math_exp (- r * T)) (\<lambda>disc. Inr (S * N d1 - K * disc * N d2))
         else if option_type self = ''Put'' then
           bind (math_exp (- r * T)) (\<lambda>disc. Inr (K * disc * N (- d2) - S * N (- d1)))
         else Inr 0)"

text \<open>
  The method itself. The guard for expiration returns before any other operation, and
  without the multiplier; after it come \<open>d1\<close> and \<open>d2\<close>, the price, and the scaling by the
  multiplier of line 117.
\<close>

definition theoretical_value_bs :: "Option \<Rightarrow> real \<Rightarrow> real \<Rightarrow> real \<Rightarrow> error + real" where
  "theoretical_value_bs self risk_free_rate volatility time_to_maturity =
     (let S = market_price self;
          K = strike_price self;
          r = risk_free_rate;
          sigma = volatility;
          T = time_to_maturity
      in if T \<le> 0 then
           Inr (if option_type self = ''Call'' then max 0 (S - K) else max 0 (K - S))
         else
           bind (bs_d1_d2 S K r sigma T) (\<lambda>(d1, d2).
           bind (bs_step4 self r T d1 d2) (\<lambda>theoretical_price.
           Inr (theoretical_price * multiplier self))))"

subsection \<open>The formulas of the specification\<close>

text \<open>
  The quantities of the pricing algorithm as the specification writes them, to be compared
  with what the method computes.
\<close>

definition spec_d1 :: "real \<Rightarrow> real \<Rightarrow> real \<Rightarrow> real \<Rightarrow> real \<Rightarrow> real" where
  "spec_d1 S K r sigma T = (ln (S / K) + (r + sigma\<^sup>2 / 2) * T) / (sigma * sqrt T)"

definition spec_d2 :: "real \<Rightarrow> real \<Rightarrow> real \<Rightarrow> real \<Rightarrow> real \<Rightarrow> real" where
  "spec_d2 S K r sigma T = spec_d1 S K r sigma T - sigma * sqrt T"

definition spec_N :: "real \<Rightarrow> real" where
  "spec_N x = (1 + erf (x / sqrt 2)) / 2"

definition spec_call_price :: "real \<Rightarrow> real \<Rightarrow> real \<Rightarrow> real \<Rightarrow> real \<Rightarrow> real" where
  "spec_call_price S K r sigma T =
     S * spec_N (spec_d1 S K r sigma T) - K * exp (- (r * T)) * spec_N (spec_d2 S K r sigma T)"

definition spec_put_price :: "real \<Rightarrow> real \<Rightarrow> real \<Rightarrow> real \<Rightarrow> real \<Rightarrow> real" where
  "spec_put_price S K r sigma T =
     K * exp (- (r * T)) * spec_N (- spec_d2 S K r sigma T) - S * spec_N (- spec_d1 S K r sigma T)"

section \<open>Valuation of single positions\<close>

text \<open>
  C8. A derivative and an option with quantity \<open>q\<close>, market price \<open>p\<close> and multiplier \<open>m\<close> are
  worth \<open>q * p * m\<close>; a stock with quantity \<open>q\<close> and market price \<open>p\<close> is worth \<open>q * p\<close>. The
  value is a total function of the fields of the position alone: whatever the ticker, the
  expiration date, the strike, the option type and the dividend flag are.
\<close>

theorem calculate_current_value_fields:
  "calculate_current_value (DerivativePos
      \<lparr>ticker = t, quantity = q, market_price = p, expiration_date = e, multiplier = m\<rparr>)
     = q * p * m
   \<and> calculate_current_value (OptionPos
      \<lparr>ticker = t, quantity = q, market_price = p, expiration_date = e, multiplier = m,
       strike_price = k, option_type = ty\<rparr>)
     = q * p * m
   \<and> calculate_current_value (StockPos
      \<lparr>ticker = t, quantity = q, market_price = p, pays_dividends = dv\<rparr>)
     = q * p"
  by (simp add: Derivative_calculate_current_value_def Stock_calculate_current_value_def)

section \<open>Portfolio aggregates\<close>

lemma foldl_add_sum_list: "foldl (\<lambda>acc x. acc + x) a xs = a + sum_list xs" for a :: real
  by (induction xs arbitrary: a) (simp_all add: add.assoc)

lemma py_sum_sum_list: "py_sum xs = sum_list xs"
  by (simp add: py_sum_def foldl_add_sum_list)

lemma py_sum_Nil: "py_sum [] = 0"
  by (simp add: py_sum_def)

lemma py_sum_snoc: "py_sum (xs @ [x]) = py_sum xs + x"
  by (simp add: py_sum_def)

text \<open>
  C7. The total valuation of a portfolio is the sum of the current values of its positions,
  added in insertion order: it is \<open>0\<close> for the empty portfolio, and appending a position adds
  the value of that position to the total of the positions before it.
\<close>

theorem total_valuation_insertion_order:
  "total_valuation Portfolio_init = 0
   \<and> total_valuation (add_position pf p) = total_valuation pf + calculate_current_value p
   \<and> total_valuation pf = (\<Sum>q\<leftarrow>positions pf. calculate_current_value q)"
  by (simp add: total_valuation_def Portfolio_init_def add_position_def py_sum_Nil py_sum_snoc
      py_sum_sum_list)

lemma market_price_of_field:
  "market_price_of q =
     (case q of StockPos s \<Rightarrow> market_price s
      | DerivativePos d \<Rightarrow> market_price d
      | OptionPos opt \<Rightarrow> market_price opt)"
  by (cases q) simp_all

text \<open>
  C9. The average market price is \<open>0\<close> for a portfolio without positions, and otherwise the
  sum of the \<open>market_price\<close> fields of the positions divided by the number of positions.
  The price read from a position is its \<open>market_price\<close> field, whatever its class, its
  quantity, its multiplier and its strike are: the mean is not value-weighted.
\<close>

theorem average_market_price_mean:
  "average_market_price \<lparr>positions = []\<rparr> = 0
   \<and> average_market_price \<lparr>positions = p # ps\<rparr>
       = (\<Sum>q\<leftarrow>p # ps. case q of StockPos s \<Rightarrow> market_price s
                          | DerivativePos d \<Rightarrow> market_price d
                          | OptionPos opt \<Rightarrow> market_price opt)
         / real (length (p # ps))
   \<and> market_price_of (StockPos
        \<lparr>ticker = t, quantity = n, market_price = x, pays_dividends = dv\<rparr>) = x
   \<and> market_price_of (DerivativePos
        \<lparr>ticker = t, quantity = n, market_price = x, expiration_date = e, multiplier = m\<rparr>) = x
   \<and> market_price_of (OptionPos
        \<lparr>ticker = t, quantity = n, market_price = x, expiration_date = e, multiplier = m,
         strike_price = k, option_type = ty\<rparr>) = x"
  by (simp add: average_market_price_def py_sum_sum_list flip: market_price_of_field)

text \<open>
  The loop with arbitrary flags: as long as the flags are not both set on entry, it returns
  whether each flag is set already or is set by some option of the list.
\<close>

lemma straddle_loop_iff:
  "\<not> (c \<and> d) \<Longrightarrow>
   straddle_loop c d ps \<longleftrightarrow>
     (c \<or> (\<exists>opt. OptionPos opt \<in> set ps \<and> option_type opt = ''Call''))
     \<and> (d \<or> (\<exists>opt. OptionPos opt \<in> set ps \<and> option_type opt = ''Put''))"
proof (induction ps arbitrary: c d)
  case Nil
  then show ?case by simp
next
  case (Cons p ps)
  show ?case
  proof (cases p)
    case (StockPos s)
    with Cons show ?thesis by auto
  next
    case (DerivativePos dv)
    with Cons show ?thesis by auto
  next
    case (OptionPos opt)
    with Cons show ?thesis by (auto simp: Let_def)
  qed
qed

text \<open>
  C5. A portfolio has a straddle exactly when it holds some option of type \<open>Call\<close> and some
  option of type \<open>Put\<close>, wherever they stand in the list and whatever their other fields
  are; stocks and plain derivatives never count.
\<close>

theorem has_straddle_strategy_iff:
  "has_straddle_strategy pf \<longleftrightarrow>
     (\<exists>opt. OptionPos opt \<in> set (positions pf) \<and> option_type opt = ''Call'')
     \<and> (\<exists>opt. OptionPos opt \<in> set (positions pf) \<and> option_type opt = ''Put'')"
  by (simp add: has_straddle_strategy_def straddle_loop_iff)

section \<open>Net worth of an account\<close>

text \<open>
  C6. The net worth of an account is its cash balance plus the total valuation of its
  portfolio when one is assigned, and its cash balance alone when none is.
\<close>

theorem calculate_net_worth_cash_plus_portfolio:
  "calculate_net_worth (acct\<lparr>portfolio := Some pf\<rparr>) = cash_balance acct + total_valuation pf
   \<and> calculate_net_worth (acct\<lparr>portfolio := None\<rparr>) = cash_balance acct
   \<and> calculate_net_worth acct
       = cash_balance acct + (case portfolio acct of Some pf' \<Rightarrow> total_valuation pf' | None \<Rightarrow> 0)"
  by (simp add: calculate_net_worth_def split: option.split)

section \<open>Black-Scholes theoretical value\<close>

subsection \<open>Runs that raise nothing\<close>

lemma spec_N_eq: "spec_N = N"
  by (rule ext) (simp add: spec_N_def N_def)

lemma flush_pos: "1 / 2 ^ 1075 < x \<Longrightarrow> flush x = x"
  by (simp add: flush_def underflows_def)

lemma tiny_pos: "(0::real) < 1 / 2 ^ 1075"
  by simp

lemma tiny_less_least: "(1::real) / 2 ^ 1075 < 1 / 2 ^ 1074"
  by (simp add: field_simps)

text \<open>
  When the quotient \<open>S / K\<close> and the product \<open>sigma * sqrt T\<close> are not rounded to zero and
  the square of \<open>sigma\<close> does not overflow, lines 103 and 104 raise nothing and compute
  \<open>d1\<close> and \<open>d2\<close> as the specification writes them.
\<close>

lemma bs_d1_d2_regular:
  assumes "0 < T" "K \<noteq> 0" "1 / 2 ^ 1075 < S / K" "sigma\<^sup>2 < 2 ^ 1024 - 2 ^ 970"
    and "1 / 2 ^ 1075 < sigma * sqrt T"
  shows "bs_d1_d2 S K r sigma T = Inr (spec_d1 S K r sigma T, spec_d2 S K r sigma T)"
proof -
  have quot: "flush (S / K) = S / K"
    using assms(3) by (rule flush_pos)
  have pos: "0 < S / K"
    using tiny_pos assms(3) by (rule less_trans)
  have den: "flush (sigma * sqrt T) = sigma * sqrt T"
    using assms(5) by (rule flush_pos)
  have "0 < sigma * sqrt T"
    using tiny_pos assms(5) by (rule less_trans)
  then have den0: "sigma * sqrt T \<noteq> 0"
    by linarith
  have sq: "float_pow sigma 2 = Inr (sigma\<^sup>2)"
    using assms(4) by (simp add: float_pow_def overflows_def)
  show ?thesis
    using assms(1,2) pos den0
    by (simp add: bs_d1_d2_def bind_def truediv_def math_log_def math_sqrt_def quot den sq
        spec_d1_def spec_d2_def del: mult_eq_0_iff)
qed

lemma math_exp_regular: "exp x < 2 ^ 1024 - 2 ^ 970 \<Longrightarrow> math_exp x = Inr (exp x)"
  by (simp add: math_exp_def overflows_def)

lemma exp_neg_no_overflow: "0 \<le> x \<Longrightarrow> exp (- x) < 2 ^ 1024 - 2 ^ 970" for x :: real
proof -
  assume "0 \<le> x"
  then have "exp (- x) \<le> 1" by simp
  also have "(1::real) < 2 ^ 1024 - 2 ^ 970" by simp
  finally show ?thesis .
qed

subsection \<open>Runs that raise\<close>

lemma exp_1000_overflows: "2 ^ 1024 - 2 ^ 970 \<le> exp (1000 :: real)"
proof -
  have "(5 / 2 :: real) \<le> exp 1"
    using exp_lower_Taylor_quadratic [of 1] by simp
  then have "(5 / 2 :: real) ^ 1000 \<le> exp 1 ^ 1000"
    by (intro power_mono) simp_all
  also have "exp (1::real) ^ 1000 = exp 1000"
    using exp_of_nat_mult [of 1000 "1::real"] by simp
  finally have "(5 / 2 :: real) ^ 1000 \<le> exp 1000" .
  moreover have "(2::real) ^ 5 \<le> (5 / 2) ^ 4"
    by (simp add: power_divide)
  then have "((2::real) ^ 5) ^ 250 \<le> ((5 / 2) ^ 4) ^ 250"
    by (intro power_mono) simp_all
  then have "(2::real) ^ 1250 \<le> (5 / 2) ^ 1000"
    by (simp only: power_mult [symmetric]) simp
  moreover have "(2::real) ^ 1024 \<le> 2 ^ 1250"
    by (intro power_increasing) simp_all
  moreover have "(0::real) \<le> 2 ^ 970"
    by simp
  ultimately show ?thesis
    by linarith
qed

lemma math_exp_1000: "math_exp 1000 = Inl OverflowError"
proof -
  have "overflows (exp 1000)"
    using exp_1000_overflows by (simp add: overflows_def)
  moreover have "\<not> overflows 1000"
    by (simp add: overflows_def)
  ultimately show ?thesis
    by (simp add: math_exp_def)
qed

lemma raises_before_step4:
  "0 < T \<Longrightarrow> bs_d1_d2 (market_price opt) (strike_price opt) r sigma T = Inl e
   \<Longrightarrow> theoretical_value_bs opt r sigma T = Inl e"
  by (simp add: theoretical_value_bs_def bind_def)

lemma bs_d1_d2_log_domain:
  assumes "K \<noteq> 0" "\<bar>S / K\<bar> \<le> 1 / 2 ^ 1075"
  shows "bs_d1_d2 S K r sigma T = Inl ValueError"
proof -
  have "flush (S / K) = 0"
    using assms(2) by (simp only: flush_def underflows_def if_True)
  with assms(1) show ?thesis
    by (simp add: bs_d1_d2_def bind_def truediv_def math_log_def)
qed

lemma bs_d1_d2_pow_overflow:
  assumes "K \<noteq> 0" "1 / 2 ^ 1075 < S / K" "2 ^ 1024 - 2 ^ 970 \<le> sigma\<^sup>2"
  shows "bs_d1_d2 S K r sigma T = Inl OverflowError"
proof -
  have quot: "flush (S / K) = S / K"
    using assms(2) by (rule flush_pos)
  have pos: "0 < S / K"
    using tiny_pos assms(2) by (rule less_trans)
  have "float_pow sigma 2 = Inl OverflowError"
    using assms(3) by (simp only: float_pow_def overflows_def abs_power2 if_True)
  with assms(1) pos show ?thesis
    by (simp add: bs_d1_d2_def bind_def truediv_def math_log_def quot)
qed

lemma bs_d1_d2_zero_division:
  assumes "0 < T" "K \<noteq> 0" "1 / 2 ^ 1075 < S / K" "sigma\<^sup>2 < 2 ^ 1024 - 2 ^ 970"
    and "\<bar>sigma * sqrt T\<bar> \<le> 1 / 2 ^ 1075"
  shows "bs_d1_d2 S K r sigma T = Inl ZeroDivisionError"
proof -
  have quot: "flush (S / K) = S / K"
    using assms(3) by (rule flush_pos)
  have pos: "0 < S / K"
    using tiny_pos assms(3) by (rule less_trans)
  have sq: "float_pow sigma 2 = Inr (sigma\<^sup>2)"
    using assms(4) by (simp add: float_pow_def overflows_def)
  have den: "flush (sigma * sqrt T) = 0"
    using assms(5) by (simp only: flush_def underflows_def if_True)
  from assms(1,2) pos show ?thesis
    by (simp add: bs_d1_d2_def bind_def truediv_def math_log_def math_sqrt_def quot sq den
        del: mult_eq_0_iff)
qed

lemma sqrt_tiny: "sqrt (1 / 2 ^ 1000) = 1 / 2 ^ 500"
proof (rule real_sqrt_unique)
  show "((1::real) / 2 ^ 500)\<^sup>2 = 1 / 2 ^ 1000"
    by (simp add: power_divide flip: power_mult)
  show "(0::real) \<le> 1 / 2 ^ 500"
    by simp
qed

text \<open>
  C1, as stated, fails: positive \<open>S\<close>, \<open>K\<close>, \<open>sigma\<close> and \<open>T\<close> do not make the method
  return. With \<open>r = -1000\<close> and \<open>T = 1\<close> the call of \<^verbatim>\<open>math.exp\<close> on \<open>1000\<close> raises
  \<^verbatim>\<open>OverflowError\<close>; with \<open>sigma = 2^600\<close> the power \<^verbatim>\<open>sigma ** 2\<close> raises
  \<^verbatim>\<open>OverflowError\<close>; with \<open>sigma = 2^-600\<close> and \<open>T = 2^-1000\<close> the product
  \<open>sigma * sqrt T = 2^-1100\<close> is the double \<open>0.0\<close> and the division raises
  \<^verbatim>\<open>ZeroDivisionError\<close>; with \<open>S = 2^-600\<close> and \<open>K = 2^600\<close> the quotient \<open>S / K = 2^-1200\<close>
  is the double \<open>0.0\<close> and \<^verbatim>\<open>math.log\<close> raises \<^verbatim>\<open>ValueError\<close>.
\<close>

theorem theoretical_value_bs_raises:
  "theoretical_value_bs
     \<lparr>ticker = ''CALL-TSLA'', quantity = 10, market_price = 100, expiration_date = ''2026-06'',
      multiplier = 100, strike_price = 95, option_type = ''Call''\<rparr> (- 1000) (1/5) 1
   = Inl OverflowError
   \<and> theoretical_value_bs
     \<lparr>ticker = ''CALL-TSLA'', quantity = 10, market_price = 100, expiration_date = ''2026-06'',
      multiplier = 100, strike_price = 95, option_type = ''Call''\<rparr> (1/25) (2 ^ 600) 1
   = Inl OverflowError
   \<and> theoretical_value_bs
     \<lparr>ticker = ''CALL-TSLA'', quantity = 10, market_price = 100, expiration_date = ''2026-06'',
      multiplier = 100, strike_price = 95, option_type = ''Call''\<rparr>
      (1/25) (1 / 2 ^ 600) (1 / 2 ^ 1000)
   = Inl ZeroDivisionError
   \<and> theoretical_value_bs
     \<lparr>ticker = ''CALL-TSLA'', quantity = 10, market_price = 1 / 2 ^ 600,
      expiration_date = ''2026-06'', multiplier = 100, strike_price = 2 ^ 600,
      option_type = ''Call''\<rparr> (1/25) (1/5) 1
   = Inl ValueError"
proof (intro conjI)
  let ?opt = "\<lparr>ticker = ''CALL-TSLA'', quantity = 10, market_price = 100,
      expiration_date = ''2026-06'', multiplier = 100, strike_price = 95,
      option_type = ''Call''\<rparr>"
  have ratio: "(1::real) / 2 ^ 1075 < 100 / 95"
    by (simp add: field_simps)
  have "bs_d1_d2 100 95 (- 1000) (1/5) 1
      = Inr (spec_d1 100 95 (- 1000) (1/5) 1, spec_d2 100 95 (- 1000) (1/5) 1)"
    using ratio by (intro bs_d1_d2_regular) (simp_all add: field_simps power2_eq_square)
  then show "theoretical_value_bs ?opt (- 1000) (1/5) 1 = Inl OverflowError"
    by (simp add: theoretical_value_bs_def bs_step4_def bind_def math_exp_1000)
  have "bs_d1_d2 100 95 (1/25) (2 ^ 600) 1 = Inl OverflowError"
    using ratio by (intro bs_d1_d2_pow_overflow) simp_all
  then show "theoretical_value_bs ?opt (1/25) (2 ^ 600) 1 = Inl OverflowError"
    by (intro raises_before_step4) simp_all
  have "\<bar>1 / 2 ^ 600 * sqrt (1 / 2 ^ 1000)\<bar> \<le> (1::real) / 2 ^ 1075"
    unfolding sqrt_tiny by (simp add: field_simps)
  moreover have "((1::real) / 2 ^ 600)\<^sup>2 < 2 ^ 1024 - 2 ^ 970"
    by (simp add: power_divide field_simps)
  ultimately have "bs_d1_d2 100 95 (1/25) (1 / 2 ^ 600) (1 / 2 ^ 1000) = Inl ZeroDivisionError"
    using ratio by (intro bs_d1_d2_zero_division) simp_all
  then show "theoretical_value_bs ?opt (1/25) (1 / 2 ^ 600) (1 / 2 ^ 1000)
      = Inl ZeroDivisionError"
    by (intro raises_before_step4) simp_all
  have "\<bar>1 / 2 ^ 600 / 2 ^ 600\<bar> \<le> (1::real) / 2 ^ 1075"
    by (simp add: field_simps)
  then have "bs_d1_d2 (1 / 2 ^ 600) (2 ^ 600) (1/25) (1/5) 1 = Inl ValueError"
    by (intro bs_d1_d2_log_domain) simp_all
  then show "theoretical_value_bs
     \<lparr>ticker = ''CALL-TSLA'', quantity = 10, market_price = 1 / 2 ^ 600,
      expiration_date = ''2026-06'', multiplier = 100, strike_price = 2 ^ 600,
      option_type = ''Call''\<rparr> (1/25) (1/5) 1 = Inl ValueError"
    by (intro raises_before_step4) simp_all
qed

subsection \<open>The price after the guard\<close>

text \<open>
  C1, amended. For an option with market price \<open>S > 0\<close> and strike \<open>K > 0\<close>, and inputs
  with \<open>sigma > 0\<close> and \<open>T > 0\<close>, on which no operation leaves the range of a double where
  the code raises for it (the quotient \<open>S / K\<close> is above \<open>2^-1075\<close>, the product
  \<open>sigma * sqrt T\<close> is at least the least positive double \<open>2^-1074\<close>, and \<open>sigma\<^sup>2\<close> and
  \<open>exp (- r T)\<close> are below \<open>2^1024 - 2^970\<close>), the method raises nothing and returns the
  multiplier times the price of step 4: \<open>S * N d1 - K * exp (- r T) * N d2\<close> for a call and
  \<open>K * exp (- r T) * N (- d2) - S * N (- d1)\<close> for a put, with \<open>d1\<close>, \<open>d2\<close> and \<open>N\<close> those of
  the specification.
\<close>

theorem theoretical_value_bs_formula:
  assumes "0 < market_price opt" "0 < strike_price opt" "0 < sigma" "0 < T"
    and "1 / 2 ^ 1075 < market_price opt / strike_price opt"
    and "sigma\<^sup>2 < 2 ^ 1024 - 2 ^ 970"
    and "1 / 2 ^ 1074 \<le> sigma * sqrt T"
    and "exp (- (r * T)) < 2 ^ 1024 - 2 ^ 970"
  shows "theoretical_value_bs (opt\<lparr>option_type := ''Call''\<rparr>) r sigma T
           = Inr (multiplier opt * spec_call_price (market_price opt) (strike_price opt) r sigma T)
         \<and> theoretical_value_bs (opt\<lparr>option_type := ''Put''\<rparr>) r sigma T
           = Inr (multiplier opt * spec_put_price (market_price opt) (strike_price opt) r sigma T)"
proof -
  have "1 / 2 ^ 1075 < sigma * sqrt T"
    using assms(7) tiny_less_least by linarith
  with assms have stage: "bs_d1_d2 (market_price opt) (strike_price opt) r sigma T
      = Inr (spec_d1 (market_price opt) (strike_price opt) r sigma T,
             spec_d2 (market_price opt) (strike_price opt) r sigma T)"
    by (intro bs_d1_d2_regular) simp_all
  have disc: "math_exp (- (r * T)) = Inr (exp (- (r * T)))"
    using assms(8) by (rule math_exp_regular)
  show ?thesis
    using assms(4)
    by (simp add: theoretical_value_bs_def stage bs_step4_def disc bind_def
        spec_call_price_def spec_put_price_def spec_N_eq)
qed

theorem theoretical_value_bs_formula_witness:
  "(0::real) < 100 \<and> (0::real) < 95 \<and> (0::real) < 1/5 \<and> (0::real) < 1
   \<and> (1::real) / 2 ^ 1075 < 100 / 95
   \<and> ((1::real)/5)\<^sup>2 < 2 ^ 1024 - 2 ^ 970
   \<and> (1::real) / 2 ^ 1074 \<le> 1/5 * sqrt 1
   \<and> exp (- ((1::real)/25 * 1)) < 2 ^ 1024 - 2 ^ 970
   \<and> theoretical_value_bs
       \<lparr>ticker = ''CALL-TSLA'', quantity = 10, market_price = 100, expiration_date = ''2026-06'',
        multiplier = 100, strike_price = 95, option_type = ''Call''\<rparr> (1/25) (1/5) 1
     = Inr (100 * spec_call_price 100 95 (1/25) (1/5) 1)"
proof -
  have h5: "(1::real) / 2 ^ 1075 < 100 / 95" by (simp add: field_simps)
  have h6: "((1::real)/5)\<^sup>2 < 2 ^ 1024 - 2 ^ 970" by (simp add: power2_eq_square)
  have h7: "(1::real) / 2 ^ 1074 \<le> 1/5 * sqrt 1" by (simp add: field_simps)
  have h8: "exp (- ((1::real)/25 * 1)) < 2 ^ 1024 - 2 ^ 970"
    by (rule exp_neg_no_overflow) simp
  from theoretical_value_bs_formula [of
      "\<lparr>ticker = ''CALL-TSLA'', quantity = 10, market_price = 100, expiration_date = ''2026-06'',
        multiplier = 100, strike_price = 95, option_type = ''Call''\<rparr>" "1/5" 1 "1/25"]
    h5 h6 h7 h8
  have "theoretical_value_bs
       \<lparr>ticker = ''CALL-TSLA'', quantity = 10, market_price = 100, expiration_date = ''2026-06'',
        multiplier = 100, strike_price = 95, option_type = ''Call''\<rparr> (1/25) (1/5) 1
     = Inr (100 * spec_call_price 100 95 (1/25) (1/5) 1)"
    by simp
  with h5 h6 h7 h8 show ?thesis by simp
qed

subsection \<open>The guard for expiration\<close>

text \<open>
  C2. For \<open>T \<le> 0\<close> the method returns the intrinsic value, \<open>max 0 (S - K)\<close> for a call and
  \<open>max 0 (K - S)\<close> for a put, and the multiplier is not applied: the result is the same
  under every multiplier.
\<close>

theorem theoretical_value_bs_expired:
  assumes "T \<le> 0"
  shows "theoretical_value_bs (opt\<lparr>option_type := ''Call''\<rparr>) r sigma T
           = Inr (max 0 (market_price opt - strike_price opt))
         \<and> theoretical_value_bs (opt\<lparr>option_type := ''Put''\<rparr>) r sigma T
           = Inr (max 0 (strike_price opt - market_price opt))
         \<and> theoretical_value_bs (opt\<lparr>multiplier := m\<rparr>) r sigma T
           = theoretical_value_bs opt r sigma T"
  using assms by (simp add: theoretical_value_bs_def)

theorem theoretical_value_bs_expired_witness:
  "(0::real) \<le> 0
   \<and> theoretical_value_bs
       \<lparr>ticker = ''CALL-TSLA'', quantity = 10, market_price = 110, expiration_date = ''2026-06'',
        multiplier = 100, strike_price = 100, option_type = ''Call''\<rparr> (1/25) (1/4) 0
     = Inr 10
   \<and> theoretical_value_bs
       \<lparr>ticker = ''CALL-TSLA'', quantity = 10, market_price = 110, expiration_date = ''2026-06'',
        multiplier = 100, strike_price = 100, option_type = ''Put''\<rparr> (1/25) (1/4) 0
     = Inr 0"
  using theoretical_value_bs_expired [of 0
      "\<lparr>ticker = ''CALL-TSLA'', quantity = 10, market_price = 110, expiration_date = ''2026-06'',
        multiplier = 100, strike_price = 100, option_type = ''Call''\<rparr>" "1/25" "1/4" 100]
  by simp

text \<open>
  C10. The guard compares the option type with \<open>Call\<close> only. For \<open>T \<le> 0\<close> every option
  whose type is not \<open>Call\<close>, a type outside \<open>Call\<close> and \<open>Put\<close> included, gets the intrinsic
  value of a put, \<open>max 0 (K - S)\<close>, and not the fallback \<open>0\<close> of an unknown type.
\<close>

theorem theoretical_value_bs_expired_not_call:
  assumes "T \<le> 0" "option_type opt \<noteq> ''Call''"
  shows "theoretical_value_bs opt r sigma T = Inr (max 0 (strike_price opt - market_price opt))"
  using assms by (simp add: theoretical_value_bs_def)

theorem theoretical_value_bs_expired_not_call_witness:
  "(0::real) \<le> 0 \<and> ''Straddle'' \<noteq> ''Call''
   \<and> theoretical_value_bs
       \<lparr>ticker = ''X'', quantity = 1, market_price = 90, expiration_date = ''2026-06'',
        multiplier = 100, strike_price = 100, option_type = ''Straddle''\<rparr> (1/25) (1/4) 0
     = Inr 10"
  using theoretical_value_bs_expired_not_call [of 0
      "\<lparr>ticker = ''X'', quantity = 1, market_price = 90, expiration_date = ''2026-06'',
        multiplier = 100, strike_price = 100, option_type = ''Straddle''\<rparr>" "1/25" "1/4"]
  by simp

subsection \<open>Option types other than call and put\<close>

text \<open>
  C3. For an option whose type is neither \<open>Call\<close> nor \<open>Put\<close> and for \<open>T > 0\<close>, whenever
  step 4 is reached, that is whenever the computation of \<open>d1\<close> and \<open>d2\<close> has returned, step
  4 raises nothing and leaves the price at \<open>0\<close>, and the method returns \<open>0\<close> after the
  scaling by the multiplier.
\<close>

theorem theoretical_value_bs_unknown_type:
  assumes "0 < T" "option_type opt \<noteq> ''Call''" "option_type opt \<noteq> ''Put''"
    and "bs_d1_d2 (market_price opt) (strike_price opt) r sigma T = Inr (d1, d2)"
  shows "bs_step4 opt r T d1 d2 = Inr 0 \<and> theoretical_value_bs opt r sigma T = Inr 0"
  using assms by (simp add: theoretical_value_bs_def bs_step4_def bind_def)

theorem theoretical_value_bs_unknown_type_witness:
  "(0::real) < 1 \<and> ''Straddle'' \<noteq> ''Call'' \<and> ''Straddle'' \<noteq> ''Put''
   \<and> bs_d1_d2 90 100 (1/25) (1/4) 1
       = Inr (spec_d1 90 100 (1/25) (1/4) 1, spec_d2 90 100 (1/25) (1/4) 1)
   \<and> bs_step4
       \<lparr>ticker = ''X'', quantity = 1, market_price = 90, expiration_date = ''2026-06'',
        multiplier = 100, strike_price = 100, option_type = ''Straddle''\<rparr> (1/25) 1
       (spec_d1 90 100 (1/25) (1/4) 1) (spec_d2 90 100 (1/25) (1/4) 1)
     = Inr 0
   \<and> theoretical_value_bs
       \<lparr>ticker = ''X'', quantity = 1, market_price = 90, expiration_date = ''2026-06'',
        multiplier = 100, strike_price = 100, option_type = ''Straddle''\<rparr> (1/25) (1/4) 1
     = Inr 0"
proof -
  have stage: "bs_d1_d2 90 100 (1/25) (1/4) 1
       = Inr (spec_d1 90 100 (1/25) (1/4) 1, spec_d2 90 100 (1/25) (1/4) 1)"
    by (rule bs_d1_d2_regular) (simp_all add: field_simps power2_eq_square)
  from theoretical_value_bs_unknown_type [of 1
      "\<lparr>ticker = ''X'', quantity = 1, market_price = 90, expiration_date = ''2026-06'',
        multiplier = 100, strike_price = 100, option_type = ''Straddle''\<rparr>" "1/25" "1/4"
      "spec_d1 90 100 (1/25) (1/4) 1" "spec_d2 90 100 (1/25) (1/4) 1"] stage
  show ?thesis
    by simp
qed

end
